theory Spec2Isabelle
  imports Complex_Main
begin

section \<open>JavaScript numbers\<close>

text \<open>
  A JavaScript \<^verbatim>\<open>number\<close> is a finite value, one of the two infinities, or NaN. The
  finite values are kept as exact rationals: the rounding of binary64 and its overflow
  are not part of this model, and neither is the sign of zero. The special values are
  kept, because \<^verbatim>\<open>parseFloat\<close>, \<^verbatim>\<open>isNaN\<close>, \<^verbatim>\<open>Math.round\<close> and \<^verbatim>\<open>%\<close> treat them apart.
\<close>

datatype number = Fin rat | PosInf | NegInf | NaN

fun isNaN :: "number \<Rightarrow> bool" where
  "isNaN NaN = True"
| "isNaN _ = False"

fun num_neg :: "number \<Rightarrow> number" where
  "num_neg (Fin x) = Fin (- x)"
| "num_neg PosInf = NegInf"
| "num_neg NegInf = PosInf"
| "num_neg NaN = NaN"

text \<open>\<^verbatim>\<open>Math.abs\<close>.\<close>

fun Math_abs :: "number \<Rightarrow> number" where
  "Math_abs (Fin x) = Fin \<bar>x\<bar>"
| "Math_abs PosInf = PosInf"
| "Math_abs NegInf = PosInf"
| "Math_abs NaN = NaN"

text \<open>The binary operators \<^verbatim>\<open>+\<close>, \<^verbatim>\<open>-\<close> and \<^verbatim>\<open>*\<close> on numbers.\<close>

fun num_add :: "number \<Rightarrow> number \<Rightarrow> number" where
  "num_add (Fin x) (Fin y) = Fin (x + y)"
| "num_add NaN _ = NaN"
| "num_add _ NaN = NaN"
| "num_add PosInf NegInf = NaN"
| "num_add NegInf PosInf = NaN"
| "num_add PosInf _ = PosInf"
| "num_add NegInf _ = NegInf"
| "num_add (Fin x) PosInf = PosInf"
| "num_add (Fin x) NegInf = NegInf"

definition num_sub :: "number \<Rightarrow> number \<Rightarrow> number" where
  "num_sub a b = num_add a (num_neg b)"

text \<open>
  With \<open>num_add\<close> as addition and \<open>Fin 0\<close> as zero the numbers form a commutative
  monoid: in this model sums do not depend on the order of the summands.
\<close>

instantiation number :: comm_monoid_add
begin

definition zero_number :: number where
  "zero_number = Fin 0"

definition plus_number :: "number \<Rightarrow> number \<Rightarrow> number" where
  "plus_number = num_add"

instance
proof
  fix a b c :: number
  show "a + b + c = a + (b + c)"
    by (cases a; cases b; cases c) (simp_all add: plus_number_def)
  show "a + b = b + a"
    by (cases a; cases b) (simp_all add: plus_number_def)
  show "0 + a = a"
    by (cases a) (simp_all add: zero_number_def plus_number_def)
qed

end

fun inf_of_sign :: "rat \<Rightarrow> number" where
  "inf_of_sign s = (if s = 0 then NaN else if 0 < s then PosInf else NegInf)"

fun num_mul :: "number \<Rightarrow> number \<Rightarrow> number" where
  "num_mul (Fin x) (Fin y) = Fin (x * y)"
| "num_mul NaN _ = NaN"
| "num_mul _ NaN = NaN"
| "num_mul PosInf (Fin y) = inf_of_sign y"
| "num_mul NegInf (Fin y) = inf_of_sign (- y)"
| "num_mul (Fin x) PosInf = inf_of_sign x"
| "num_mul (Fin x) NegInf = inf_of_sign (- x)"
| "num_mul PosInf PosInf = PosInf"
| "num_mul NegInf NegInf = PosInf"
| "num_mul PosInf NegInf = NegInf"
| "num_mul NegInf PosInf = NegInf"

text \<open>The comparison \<^verbatim>\<open>a < b\<close>: false as soon as one side is NaN.\<close>

fun num_lt :: "number \<Rightarrow> number \<Rightarrow> bool" where
  "num_lt (Fin x) (Fin y) = (x < y)"
| "num_lt NaN _ = False"
| "num_lt _ NaN = False"
| "num_lt NegInf NegInf = False"
| "num_lt NegInf _ = True"
| "num_lt PosInf _ = False"
| "num_lt (Fin x) PosInf = True"
| "num_lt (Fin x) NegInf = False"

text \<open>
  \<^verbatim>\<open>Math.round\<close>: the nearest integer, a tie going towards plus infinity;
  the infinities and NaN are returned as they are.
\<close>

fun Math_round :: "number \<Rightarrow> number" where
  "Math_round (Fin x) = Fin (of_int \<lfloor>x + 1 / 2\<rfloor>)"
| "Math_round n = n"

text \<open>
  The remainder \<^verbatim>\<open>a % b\<close>: the quotient is truncated towards zero, so the result has
  the sign of the dividend; an infinite dividend or a zero divisor gives NaN, an infinite
  divisor leaves a finite dividend as it is.
\<close>

definition trunc :: "rat \<Rightarrow> int" where
  "trunc x = (if 0 \<le> x then \<lfloor>x\<rfloor> else \<lceil>x\<rceil>)"

fun num_rem :: "number \<Rightarrow> number \<Rightarrow> number" where
  "num_rem (Fin x) (Fin y) = (if y = 0 then NaN else Fin (x - y * of_int (trunc (x / y))))"
| "num_rem (Fin x) PosInf = Fin x"
| "num_rem (Fin x) NegInf = Fin x"
| "num_rem _ _ = NaN"

text \<open>Truthiness of a number: \<^verbatim>\<open>0\<close> and NaN are falsy.\<close>

fun num_truthy :: "number \<Rightarrow> bool" where
  "num_truthy (Fin x) = (x \<noteq> 0)"
| "num_truthy NaN = False"
| "num_truthy _ = True"

section \<open>Strings\<close>

text \<open>
  Strings are lists of characters. Upper and lower case, digits and white space are those
  of ASCII; the non-breaking space and the other Unicode spaces that \<^verbatim>\<open>trim\<close> and
  \<^verbatim>\<open>\s\<close> also remove are outside the model.
\<close>

definition is_digit :: "char \<Rightarrow> bool" where
  "is_digit c = ((48::nat) \<le> of_char c \<and> of_char c \<le> (57::nat))"

definition digit_val :: "char \<Rightarrow> nat" where
  "digit_val c = of_char c - (48::nat)"

definition is_space :: "char \<Rightarrow> bool" where
  "is_space c = (of_char c = (32::nat) \<or> ((9::nat) \<le> of_char c \<and> of_char c \<le> (13::nat)))"

definition lower_char :: "char \<Rightarrow> char" where
  "lower_char c = (if (65::nat) \<le> of_char c \<and> of_char c \<le> (90::nat)
     then char_of (of_char c + (32::nat)) else c)"

definition toLowerCase :: "string \<Rightarrow> string" where
  "toLowerCase s = map lower_char s"

definition trim :: "string \<Rightarrow> string" where
  "trim s = rev (dropWhile is_space (rev (dropWhile is_space s)))"

fun startsWith :: "string \<Rightarrow> string \<Rightarrow> bool" where
  "startsWith s [] = True"
| "startsWith [] (p # ps) = False"
| "startsWith (c # cs) (p # ps) = (c = p \<and> startsWith cs ps)"

text \<open>\<^verbatim>\<open>s.includes(p)\<close>: \<open>p\<close> occurs in \<open>s\<close> as a contiguous substring.\<close>

fun str_includes :: "string \<Rightarrow> string \<Rightarrow> bool" where
  "str_includes [] p = (p = [])"
| "str_includes (c # cs) p = (startsWith (c # cs) p \<or> str_includes cs p)"

text \<open>\<^verbatim>\<open>s.replace(a, b)\<close> with a one-character string pattern: only the first occurrence.\<close>

fun replace_first :: "char \<Rightarrow> char \<Rightarrow> string \<Rightarrow> string" where
  "replace_first a b [] = []"
| "replace_first a b (c # cs) = (if c = a then b # cs else c # replace_first a b cs)"

text \<open>The decimal value of a run of digits.\<close>

definition digits_val :: "string \<Rightarrow> nat" where
  "digits_val ds = foldl (\<lambda>a c. 10 * a + digit_val c) 0 ds"

text \<open>
  \<^verbatim>\<open>parseInt\<close>, on the strings the source gives it: the digit groups captured by the
  date patterns.
\<close>

definition parseInt :: "string \<Rightarrow> int" where
  "parseInt ds = int (digits_val ds)"

section \<open>Dates\<close>

text \<open>
  A \<^verbatim>\<open>Date\<close> object holds a time value: a whole number of milliseconds since
  1970-01-01T00:00Z, at most \<open>8.64e15\<close> in magnitude, or NaN (an invalid date). The local
  time zone is taken to be UTC, so local and UTC calendar fields agree.
\<close>

datatype Date = Invalid_Date | Time int

definition msPerDay :: int where
  "msPerDay = 86400000"

text \<open>\<^verbatim>\<open>TimeClip\<close>, applied by every \<^verbatim>\<open>Date\<close> constructor.\<close>

fun TimeClip :: "number \<Rightarrow> Date" where
  "TimeClip (Fin t) = (if 8640000000000000 < \<bar>t\<bar> then Invalid_Date else Time (trunc t))"
| "TimeClip _ = Invalid_Date"

definition InLeapYear :: "int \<Rightarrow> bool" where
  "InLeapYear y = (if y mod 400 = 0 then True else if y mod 100 = 0 then False else y mod 4 = 0)"

text \<open>The day number of 1 January of year \<open>y\<close>, counted from 1 January 1970.\<close>

definition DayFromYear :: "int \<Rightarrow> int" where
  "DayFromYear y = 365 * (y - 1970) + (y - 1969) div 4 - (y - 1901) div 100 + (y - 1601) div 400"

text \<open>The number of days of the year before month \<open>m\<close> (January is 0).\<close>

definition DaysBeforeMonth :: "bool \<Rightarrow> int \<Rightarrow> int" where
  "DaysBeforeMonth leap m =
     [0, 31, 59, 90, 120, 151, 181, 212, 243, 273, 304, 334] ! nat m
       + (if leap \<and> 2 \<le> m then 1 else 0)"

text \<open>
  \<^verbatim>\<open>MakeDay\<close>: month numbers outside 0..11 carry into the year, and a day of the
  month outside the month carries into the neighbouring months.
\<close>

definition MakeDay :: "int \<Rightarrow> int \<Rightarrow> int \<Rightarrow> int" where
  "MakeDay year month dt =
     (let ym = year + month div 12; mn = month mod 12
      in DayFromYear ym + DaysBeforeMonth (InLeapYear ym) mn + dt - 1)"

text \<open>
  \<^verbatim>\<open>new Date(year, month, day)\<close> on integers: a year from 0 to 99 means 1900 + year.
\<close>

definition new_Date_ymd :: "int \<Rightarrow> int \<Rightarrow> int \<Rightarrow> Date" where
  "new_Date_ymd year month dt =
     (let yr = (if 0 \<le> year \<and> year \<le> 99 then 1900 + year else year)
      in TimeClip (Fin (of_int (MakeDay yr month dt * msPerDay))))"

text \<open>\<^verbatim>\<open>new Date(value)\<close> on a number.\<close>

definition new_Date_number :: "number \<Rightarrow> Date" where
  "new_Date_number v = TimeClip v"

text \<open>
  The calendar fields (year, month 1..12, day of month) of a day number: the inverse of
  \<open>MakeDay\<close> on the proleptic Gregorian calendar, computed on 400-year eras that start
  on 1 March.
\<close>

definition civil_from_days :: "int \<Rightarrow> int \<times> int \<times> int" where
  "civil_from_days z0 =
     (let z = z0 + 719468;
          era = z div 146097;
          doe = z mod 146097;
          yoe = (doe - doe div 1460 + doe div 36524 - doe div 146096) div 365;
          doy = doe - (365 * yoe + yoe div 4 - yoe div 100);
          mp = (5 * doy + 2) div 153;
          d = doy - (153 * mp + 2) div 5 + 1;
          m = (if mp < 10 then mp + 3 else mp - 9);
          y = yoe + era * 400 + (if m \<le> 2 then 1 else 0)
      in (y, m, d))"

text \<open>The fields \<^verbatim>\<open>getFullYear()\<close>, \<^verbatim>\<open>getMonth() + 1\<close>, \<^verbatim>\<open>getDate()\<close> of a valid date.\<close>

definition ymd_of_time :: "int \<Rightarrow> int \<times> int \<times> int" where
  "ymd_of_time t = civil_from_days (t div msPerDay)"

text \<open>A natural number in decimal, padded with zeros on the left to \<open>w\<close> digits.\<close>

fun pad_digits :: "nat \<Rightarrow> nat \<Rightarrow> string" where
  "pad_digits 0 n = []"
| "pad_digits (Suc w) n = pad_digits w (n div 10) @ [char_of (48 + n mod 10)]"

text \<open>
  The part of \<^verbatim>\<open>toISOString()\<close> before the \<^verbatim>\<open>T\<close>: \<^verbatim>\<open>YYYY-MM-DD\<close>, with a sign and six
  digits for the year outside 0..9999.
\<close>

definition iso_date :: "int \<Rightarrow> string" where
  "iso_date t =
     (case ymd_of_time t of (y, m, d) \<Rightarrow>
        (if 0 \<le> y \<and> y \<le> 9999 then pad_digits 4 (nat y)
         else (if y < 0 then ''-'' else ''+'') @ pad_digits 6 (nat \<bar>y\<bar>))
        @ ''-'' @ pad_digits 2 (nat m) @ ''-'' @ pad_digits 2 (nat d))"

section \<open>Cells and the host environment\<close>

text \<open>
  A decoded spreadsheet cell is absent (\<^verbatim>\<open>undefined\<close>), a number or a text. The grid is
  the \<^verbatim>\<open>any[][]\<close> that \<^verbatim>\<open>parseExcelData\<close> receives: a list of rows, each a list of
  cells. Every position of a row holds a value; the holes of a sparse array, which the
  array methods of the language treat each in its own way, are not modelled.
\<close>

datatype cell = Absent | Number number | Text string

text \<open>
  Two built-ins whose result the language leaves to the implementation, or whose result
  depends on the binary representation of the number, are parameters of the model:
  the conversion of a number to a string and the generic date parser \<^verbatim>\<open>new Date(string)\<close>.
\<close>

record host =
  ToString :: "number \<Rightarrow> string"
  Date_parse :: "string \<Rightarrow> Date"

text \<open>\<^verbatim>\<open>String(value)\<close> on a cell.\<close>

fun String_of :: "host \<Rightarrow> cell \<Rightarrow> string" where
  "String_of h Absent = ''undefined''"
| "String_of h (Number n) = ToString h n"
| "String_of h (Text s) = s"

text \<open>\<^verbatim>\<open>String(value || '')\<close> on a cell: a falsy cell gives the empty string.\<close>

fun String_or_empty :: "host \<Rightarrow> cell \<Rightarrow> string" where
  "String_or_empty h Absent = []"
| "String_or_empty h (Number n) = (if num_truthy n then ToString h n else [])"
| "String_or_empty h (Text s) = s"

text \<open>\<^verbatim>\<open>row[i]\<close>: an index past the end of the row reads \<^verbatim>\<open>undefined\<close>.\<close>

definition cell_at :: "cell list \<Rightarrow> nat \<Rightarrow> cell" where
  "cell_at row i = (if i < length row then row ! i else Absent)"

section \<open>The date patterns\<close>

text \<open>
  The patterns of \<^verbatim>\<open>parseDate\<close> are anchored sequences of capture groups of digits
  \<^verbatim>\<open>(\d{m,n})\<close>, written \<^verbatim>\<open>(\d{n})\<close> when \<open>m = n\<close>, and literal characters. A pattern
  has a matcher and a source text, and \<^verbatim>\<open>parseDate\<close> uses both.
\<close>

datatype tok = Group nat nat | Lit char

definition backslash :: char where
  "backslash = CHR 0x5C"

fun show_nat :: "nat \<Rightarrow> string" where
  "show_nat n = (if n < 10 then [char_of (48 + n)] else show_nat (n div 10) @ [char_of (48 + n mod 10)])"

fun tok_source :: "tok \<Rightarrow> string" where
  "tok_source (Group m n) =
     ''('' @ [backslash] @ ''d{'' @ (if m = n then show_nat n else show_nat m @ '','' @ show_nat n) @ ''})''"
| "tok_source (Lit c) = (if c = CHR ''/'' then [backslash, c] else [c])"

definition pattern_source :: "tok list \<Rightarrow> string" where
  "pattern_source p = ''^'' @ concat (map tok_source p) @ ''$''"

fun all_digits :: "string \<Rightarrow> bool" where
  "all_digits [] = True"
| "all_digits (c # cs) = (is_digit c \<and> all_digits cs)"

text \<open>
  A group tries its longest length first and gives digits back while the rest of the
  pattern does not match.
\<close>

primrec try_group :: "(string \<Rightarrow> string list option) \<Rightarrow> string \<Rightarrow> nat \<Rightarrow> nat \<Rightarrow> string list option" where
  "try_group rest s m 0 =
     (if m = 0 then (case rest s of Some gs \<Rightarrow> Some ([] # gs) | None \<Rightarrow> None) else None)"
| "try_group rest s m (Suc k) =
     (if Suc k < m then None
      else if Suc k \<le> length s \<and> all_digits (take (Suc k) s)
      then (case rest (drop (Suc k) s) of
              Some gs \<Rightarrow> Some (take (Suc k) s # gs)
            | None \<Rightarrow> try_group rest s m k)
      else try_group rest s m k)"

primrec match_toks :: "tok list \<Rightarrow> string \<Rightarrow> string list option" where
  "match_toks [] = (\<lambda>s. if s = [] then Some [] else None)"
| "match_toks (t # ts) =
     (\<lambda>s. case t of
        Group m n \<Rightarrow> try_group (match_toks ts) s m n
      | Lit c \<Rightarrow> (case s of [] \<Rightarrow> None | x # xs \<Rightarrow> if x = c then match_toks ts xs else None))"

text \<open>The three patterns, in the order of the source.\<close>

definition patterns :: "tok list list" where
  "patterns =
     [[Group 1 2, Lit (CHR ''/''), Group 1 2, Lit (CHR ''/''), Group 4 4],
      [Group 1 2, Lit (CHR ''-''), Group 1 2, Lit (CHR ''-''), Group 4 4],
      [Group 4 4, Lit (CHR ''-''), Group 1 2, Lit (CHR ''-''), Group 1 2]]"

section \<open>The cell interpreter\<close>

text \<open>
  The loop of \<^verbatim>\<open>parseDate\<close> over the patterns, and after it the fallback to the generic
  parser. The test that chooses the order of the fields looks for the text \<^verbatim>\<open>(\d{4})\<close>
  in the source of the pattern.
\<close>

fun parseDate_patterns :: "host \<Rightarrow> tok list list \<Rightarrow> string \<Rightarrow> Date option" where
  "parseDate_patterns h [] dateStr =
     (case Date_parse h dateStr of Invalid_Date \<Rightarrow> None | Time t \<Rightarrow> Some (Time t))"
| "parseDate_patterns h (p # ps) dateStr =
     (case match_toks p dateStr of
        Some [part1, part2, part3] \<Rightarrow>
          (if str_includes (pattern_source p) (''('' @ [backslash] @ ''d{4})'')
           then Some (new_Date_ymd (parseInt part1) (parseInt part2 - 1) (parseInt part3))
           else Some (new_Date_ymd (parseInt part3) (parseInt part2 - 1) (parseInt part1)))
      | _ \<Rightarrow> parseDate_patterns h ps dateStr)"

fun parseDate :: "host \<Rightarrow> cell \<Rightarrow> Date option" where
  "parseDate h Absent = None"
| "parseDate h (Number v) =
     (if \<not> num_truthy v then None
      else Some (new_Date_number (num_mul (num_mul (num_sub v (Fin 25569)) (Fin 86400)) (Fin 1000))))"
| "parseDate h (Text s) = (if s = [] then None else parseDate_patterns h patterns s)"

text \<open>
  \<^verbatim>\<open>parseFloat\<close>: leading white space is skipped, then the longest prefix that is a
  decimal literal is read: an optional sign, then \<^verbatim>\<open>Infinity\<close>, or digits with an optional
  fraction and an optional exponent. What follows the literal is ignored. No literal
  gives NaN.
\<close>

definition frac_val :: "string \<Rightarrow> rat" where
  "frac_val ds = of_nat (digits_val ds) / 10 ^ length ds"

definition is_sign :: "char \<Rightarrow> bool" where
  "is_sign c = (c = CHR ''+'' \<or> c = CHR ''-'')"

text \<open>The exponent part at the head of a string, 0 when there is none.\<close>

definition exponent_of :: "string \<Rightarrow> int" where
  "exponent_of s =
     (case s of
        [] \<Rightarrow> 0
      | e # r \<Rightarrow>
          if e = CHR ''e'' \<or> e = CHR ''E'' then
            (let neg = (r \<noteq> [] \<and> hd r = CHR ''-'');
                 r' = (if r \<noteq> [] \<and> is_sign (hd r) then tl r else r);
                 ds = takeWhile is_digit r'
             in if ds = [] then 0 else if neg then - int (digits_val ds) else int (digits_val ds))
          else 0)"

definition pow10 :: "int \<Rightarrow> rat" where
  "pow10 e = (if 0 \<le> e then 10 ^ nat e else 1 / 10 ^ nat (- e))"

definition unsigned_literal :: "string \<Rightarrow> number" where
  "unsigned_literal s =
     (if startsWith s ''Infinity'' then PosInf
      else
        (let ip = takeWhile is_digit s;
             r1 = dropWhile is_digit s;
             dot = (r1 \<noteq> [] \<and> hd r1 = CHR ''.'');
             fp = (if dot then takeWhile is_digit (tl r1) else []);
             r2 = (if dot then dropWhile is_digit (tl r1) else r1)
         in if ip = [] \<and> fp = [] then NaN
            else Fin ((of_nat (digits_val ip) + frac_val fp) * pow10 (exponent_of r2))))"

definition parseFloat :: "string \<Rightarrow> number" where
  "parseFloat str =
     (let s = dropWhile is_space str
      in case s of
           [] \<Rightarrow> NaN
         | c # r \<Rightarrow>
             if c = CHR ''-'' then num_neg (unsigned_literal r)
             else if c = CHR ''+'' then unsigned_literal r
             else unsigned_literal s)"

text \<open>The three replacements that normalise the text of an amount.\<close>

definition strip_currency :: "string \<Rightarrow> string" where
  "strip_currency s = filter (\<lambda>c. \<not> (c = CHR ''R'' \<or> c = CHR ''$'' \<or> is_space c)) s"

definition strip_dots :: "string \<Rightarrow> string" where
  "strip_dots s = filter (\<lambda>c. c \<noteq> CHR ''.'') s"

definition strip_signs :: "string \<Rightarrow> string" where
  "strip_signs s = filter (\<lambda>c. \<not> (c = CHR ''-'' \<or> c = CHR ''('' \<or> c = CHR '')'')) s"

fun parseAmount :: "host \<Rightarrow> cell \<Rightarrow> number" where
  "parseAmount h (Number v) = v"
| "parseAmount h value =
     (let str = trim (String_or_empty h value)
      in if str = [] then NaN
         else
           (let normalized = replace_first (CHR '','') (CHR ''.'') (strip_dots (strip_currency str));
                isNegative = (CHR ''-'' \<in> set normalized \<or> CHR ''('' \<in> set normalized);
                amount = parseFloat (strip_signs normalized)
            in if isNegative then num_neg amount else amount))"

section \<open>The record parser\<close>

record RawDonation =
  date :: Date
  donorName :: "string option"
  amount :: number
  description :: "string option"

text \<open>
  What can abort a run: the error thrown by \<^verbatim>\<open>parseExcelData\<close> when a required column
  is missing, and the \<^verbatim>\<open>RangeError\<close> that \<^verbatim>\<open>toISOString\<close> throws on an invalid date.
\<close>

datatype error = Colunas_obrigatorias_nao_encontradas | RangeError

text \<open>\<^verbatim>\<open>headers.findIndex(pred)\<close>, with \<open>None\<close> for \<^verbatim>\<open>-1\<close>.\<close>

fun findIndex :: "('a \<Rightarrow> bool) \<Rightarrow> 'a list \<Rightarrow> nat option" where
  "findIndex P [] = None"
| "findIndex P (x # xs) =
     (if P x then Some 0 else (case findIndex P xs of None \<Rightarrow> None | Some i \<Rightarrow> Some (Suc i)))"

fun findColumnIndex :: "string list \<Rightarrow> string list \<Rightarrow> nat option" where
  "findColumnIndex headers [] = None"
| "findColumnIndex headers (name # possibleNames) =
     (case findIndex (\<lambda>h. str_includes h name) headers of
        Some index \<Rightarrow> Some index
      | None \<Rightarrow> findColumnIndex headers possibleNames)"

text \<open>
  \<^verbatim>\<open>index !== -1 ? String(row[index] || '').trim() || undefined : undefined\<close>
\<close>

definition text_field :: "host \<Rightarrow> cell list \<Rightarrow> nat option \<Rightarrow> string option" where
  "text_field h row index =
     (case index of
        None \<Rightarrow> None
      | Some i \<Rightarrow> (let t = trim (String_or_empty h (cell_at row i)) in if t = [] then None else Some t))"

text \<open>
  The loop over the data rows. A row is dropped when it is empty, when its date is
  \<^verbatim>\<open>null\<close> or when its amount is NaN; nothing inside the loop can throw on cells of the
  three kinds. An invalid \<^verbatim>\<open>Date\<close> object is truthy, so it passes the test on the date.
\<close>

fun parseRows :: "host \<Rightarrow> nat \<Rightarrow> nat \<Rightarrow> nat option \<Rightarrow> nat option \<Rightarrow> cell list list \<Rightarrow> RawDonation list" where
  "parseRows h dateIndex amountIndex donorIndex descriptionIndex [] = []"
| "parseRows h dateIndex amountIndex donorIndex descriptionIndex (row # rows) =
     (if row = [] then parseRows h dateIndex amountIndex donorIndex descriptionIndex rows
      else
        (let dateValue = parseDate h (cell_at row dateIndex);
             amountValue = parseAmount h (cell_at row amountIndex)
         in case dateValue of
              None \<Rightarrow> parseRows h dateIndex amountIndex donorIndex descriptionIndex rows
            | Some d \<Rightarrow>
                if isNaN amountValue
                then parseRows h dateIndex amountIndex donorIndex descriptionIndex rows
                else \<lparr>date = d,
                      donorName = text_field h row donorIndex,
                      amount = amountValue,
                      description = text_field h row descriptionIndex\<rparr>
                     # parseRows h dateIndex amountIndex donorIndex descriptionIndex rows))"

definition parseExcelData :: "host \<Rightarrow> cell list list \<Rightarrow> error + RawDonation list" where
  "parseExcelData h data =
     (case data of
        [] \<Rightarrow> Inr []
      | header # rows \<Rightarrow>
          (let headers = map (\<lambda>c. toLowerCase (String_of h c)) header;
               dateIndex = findColumnIndex headers [''data'', ''date'', ''dt''];
               amountIndex = findColumnIndex headers [''valor'', ''amount'', ''value'', ''vlr''];
               donorIndex = findColumnIndex headers [''doador'', ''donor'', ''nome'', ''name''];
               descriptionIndex =
                 findColumnIndex headers [''descricao'', ''description'', ''desc'', ''observacao'']
           in case (dateIndex, amountIndex) of
                (Some di, Some ai) \<Rightarrow> Inr (parseRows h di ai donorIndex descriptionIndex rows)
              | _ \<Rightarrow> Inl Colunas_obrigatorias_nao_encontradas))"

section \<open>The classifier\<close>

record ProcessedDonation = RawDonation +
  cents :: number
  assignedChurch :: string
  isDuplicate :: bool
  isNegative :: bool

text \<open>A configured mapping \<^verbatim>\<open>{cents, churchName}\<close>, as a pair.\<close>

type_synonym ChurchMapping = "number \<times> string"

text \<open>
  The constructor: \<^verbatim>\<open>new Map(mappings.map(m => [m.cents, m.churchName]))\<close>. When a key
  occurs twice the later entry stays.
\<close>

definition new_Map :: "ChurchMapping list \<Rightarrow> (number \<rightharpoonup> string)" where
  "new_Map mappings = map_of (rev mappings)"

text \<open>The sentinel \<^verbatim>\<open>'N\~ao mapeado'\<close>; its third character is U+00E3.\<close>

definition Nao_mapeado :: string where
  "Nao_mapeado = ''N'' @ [CHR 0xE3] @ ''o mapeado''"

text \<open>\<^verbatim>\<open>this.mappings.get(cents) || 'N\~ao mapeado'\<close>: a missing entry and an empty name are falsy.\<close>

definition assign_church :: "(number \<rightharpoonup> string) \<Rightarrow> number \<Rightarrow> string" where
  "assign_church mappings c =
     (case mappings c of None \<Rightarrow> Nao_mapeado | Some n \<Rightarrow> if n = [] then Nao_mapeado else n)"

text \<open>\<^verbatim>\<open>donation.date.toISOString().split('T')[0]\<close>, which throws on an invalid date.\<close>

fun toISOString_date :: "Date \<Rightarrow> error + string" where
  "toISOString_date Invalid_Date = Inl RangeError"
| "toISOString_date (Time t) = Inr (iso_date t)"

text \<open>\<^verbatim>\<open>x || ''\<close> on an optional string.\<close>

fun or_empty :: "string option \<Rightarrow> string" where
  "or_empty None = []"
| "or_empty (Some s) = s"

text \<open>The key of a donation for the detection of duplicates.\<close>

definition donation_key :: "host \<Rightarrow> string \<Rightarrow> RawDonation \<Rightarrow> string" where
  "donation_key h isoDate donation =
     isoDate @ ''_'' @ ToString h (amount donation) @ ''_'' @ or_empty (donorName donation)
       @ ''_'' @ or_empty (description donation)"

definition cents_of :: "number \<Rightarrow> number" where
  "cents_of a = num_rem (Math_round (num_mul (Math_abs a) (Fin 100))) (Fin 100)"

text \<open>
  The loop of \<^verbatim>\<open>processDonations\<close>, with the set \<^verbatim>\<open>seen\<close> passed along. The exception
  of \<^verbatim>\<open>toISOString\<close> leaves the loop and the method.
\<close>

fun processLoop :: "host \<Rightarrow> (number \<rightharpoonup> string) \<Rightarrow> string set \<Rightarrow> RawDonation list
    \<Rightarrow> error + ProcessedDonation list" where
  "processLoop h mappings seen [] = Inr []"
| "processLoop h mappings seen (donation # rest) =
     (case toISOString_date (date donation) of
        Inl e \<Rightarrow> Inl e
      | Inr isoDate \<Rightarrow>
          (let c = cents_of (amount donation);
               key = donation_key h isoDate donation;
               processed = \<lparr>date = date donation, donorName = donorName donation,
                            amount = amount donation, description = description donation,
                            cents = c, assignedChurch = assign_church mappings c,
                            isDuplicate = (key \<in> seen),
                            isNegative = num_lt (amount donation) (Fin 0)\<rparr>
           in case processLoop h mappings (insert key seen) rest of
                Inl e \<Rightarrow> Inl e
              | Inr ps \<Rightarrow> Inr (processed # ps)))"

definition processDonations :: "host \<Rightarrow> (number \<rightharpoonup> string) \<Rightarrow> RawDonation list
    \<Rightarrow> error + ProcessedDonation list" where
  "processDonations h mappings rawDonations = processLoop h mappings {} rawDonations"

section \<open>The aggregator\<close>

definition mappedDonations :: "ProcessedDonation list \<Rightarrow> ProcessedDonation list" where
  "mappedDonations donations = filter (\<lambda>d. assignedChurch d \<noteq> Nao_mapeado) donations"

definition unmappedDonations :: "ProcessedDonation list \<Rightarrow> ProcessedDonation list" where
  "unmappedDonations donations = filter (\<lambda>d. assignedChurch d = Nao_mapeado) donations"

definition separateByMapping :: "ProcessedDonation list \<Rightarrow> ProcessedDonation list \<times> ProcessedDonation list" where
  "separateByMapping donations = (mappedDonations donations, unmappedDonations donations)"

record ChurchSummary =
  churchName :: string
  sum_cents :: number
  sum_total :: number
  sum_count :: nat

text \<open>
  \<^verbatim>\<open>churchMap\<close> is a \<^verbatim>\<open>Map\<close>, which keeps its keys in the order of their first
  insertion: an association list, where setting a present key changes its entry in place
  and setting a new key adds an entry at the end. The entry holds total, count and cents.
\<close>

type_synonym churchMap = "(string \<times> (number \<times> nat \<times> number)) list"

fun map_get :: "churchMap \<Rightarrow> string \<Rightarrow> (number \<times> nat \<times> number) option" where
  "map_get [] k = None"
| "map_get ((k', v) # m) k = (if k' = k then Some v else map_get m k)"

fun map_set :: "churchMap \<Rightarrow> string \<Rightarrow> (number \<times> nat \<times> number) \<Rightarrow> churchMap" where
  "map_set [] k v = [(k, v)]"
| "map_set ((k', v') # m) k v = (if k' = k then (k, v) # m else (k', v') # map_set m k v)"

definition summary_step :: "churchMap \<Rightarrow> ProcessedDonation \<Rightarrow> churchMap" where
  "summary_step m donation =
     (if assignedChurch donation = Nao_mapeado then m
      else
        (let existing = (case map_get m (assignedChurch donation) of
                           Some e \<Rightarrow> e
                         | None \<Rightarrow> (Fin 0, 0, cents donation))
         in case existing of
              (t, n, c) \<Rightarrow>
                map_set m (assignedChurch donation) (num_add t (Math_abs (amount donation)), Suc n, c)))"

definition summary_entries :: "ProcessedDonation list \<Rightarrow> churchMap" where
  "summary_entries donations = foldl summary_step [] donations"

text \<open>
  \<^verbatim>\<open>Array.prototype.sort\<close> with a comparison function is stable; as an insertion sort:
  an element moves behind a neighbour only when the comparison of the two is positive,
  and a result of zero or NaN leaves them as they are.
\<close>

fun sort_insert :: "('a \<Rightarrow> 'a \<Rightarrow> number) \<Rightarrow> 'a \<Rightarrow> 'a list \<Rightarrow> 'a list" where
  "sort_insert cmp x [] = [x]"
| "sort_insert cmp x (y # ys) =
     (if num_lt (Fin 0) (cmp x y) then y # sort_insert cmp x ys else x # y # ys)"

fun array_sort :: "('a \<Rightarrow> 'a \<Rightarrow> number) \<Rightarrow> 'a list \<Rightarrow> 'a list" where
  "array_sort cmp [] = []"
| "array_sort cmp (x # xs) = sort_insert cmp x (array_sort cmp xs)"

definition by_total_descending :: "ChurchSummary \<Rightarrow> ChurchSummary \<Rightarrow> number" where
  "by_total_descending a b = num_sub (sum_total b) (sum_total a)"

definition to_summary :: "string \<times> (number \<times> nat \<times> number) \<Rightarrow> ChurchSummary" where
  "to_summary e =
     (case e of (name, t, n, c) \<Rightarrow>
        \<lparr>churchName = name, sum_cents = c, sum_total = t, sum_count = n\<rparr>)"

definition generateSummary :: "ProcessedDonation list \<Rightarrow> ChurchSummary list" where
  "generateSummary donations =
     array_sort by_total_descending (map to_summary (summary_entries donations))"

record ProcessingStats =
  totalProcessed :: nat
  duplicatesFound :: nat
  negativeValuesFound :: nat
  unmappedCount :: nat

definition generateStats :: "ProcessedDonation list \<Rightarrow> ProcessedDonation list \<Rightarrow> ProcessingStats" where
  "generateStats allDonations unmapped =
     \<lparr>totalProcessed = length allDonations,
      duplicatesFound = length (filter isDuplicate allDonations),
      negativeValuesFound = length (filter isNegative allDonations),
      unmappedCount = length unmapped\<rparr>"

section \<open>The pipeline\<close>

record Result =
  donations :: "ProcessedDonation list"
  summary :: "ChurchSummary list"
  unmapped :: "ProcessedDonation list"
  stats :: ProcessingStats

text \<open>
  \<^verbatim>\<open>processExcelFile\<close>, from the decoded grid on: the decoding of the file into the grid
  belongs to the spreadsheet library. An error of either stage rejects the promise; the
  one of \<^verbatim>\<open>parseExcelData\<close> is first caught by \<^verbatim>\<open>readExcelFile\<close> and thrown again
  inside a new error that quotes it.
\<close>

definition processExcelFile :: "host \<Rightarrow> ChurchMapping list \<Rightarrow> cell list list \<Rightarrow> error + Result" where
  "processExcelFile h mappings data =
     (case parseExcelData h data of
        Inl e \<Rightarrow> Inl e
      | Inr rawDonations \<Rightarrow>
          (case processDonations h (new_Map mappings) rawDonations of
             Inl e \<Rightarrow> Inl e
           | Inr processedDonations \<Rightarrow>
               (case separateByMapping processedDonations of
                  (mapped, unmappedDs) \<Rightarrow>
                    Inr \<lparr>donations = mapped,
                         summary = generateSummary mapped,
                         unmapped = unmappedDs,
                         stats = generateStats processedDonations unmappedDs\<rparr>)))"

section \<open>Notions used in the statements\<close>

text \<open>
  A host for closed examples. It renders a number in decimal, with at most twenty digits
  after the point, which is what the language prints for the amounts of the examples;
  its generic date parser rejects every string.
\<close>

fun frac_digits :: "nat \<Rightarrow> rat \<Rightarrow> string" where
  "frac_digits 0 r = []"
| "frac_digits (Suc n) r =
     (if r = 0 then []
      else char_of (48 + nat \<lfloor>r * 10\<rfloor>) # frac_digits n (r * 10 - of_int \<lfloor>r * 10\<rfloor>))"

fun decimal_string :: "number \<Rightarrow> string" where
  "decimal_string (Fin r) =
     (if r < 0 then ''-'' else []) @ show_nat (nat \<lfloor>\<bar>r\<bar>\<rfloor>)
       @ (if \<bar>r\<bar> = of_int \<lfloor>\<bar>r\<bar>\<rfloor> then []
          else ''.'' @ frac_digits 20 (\<bar>r\<bar> - of_int \<lfloor>\<bar>r\<bar>\<rfloor>))"
| "decimal_string PosInf = ''Infinity''"
| "decimal_string NegInf = ''-Infinity''"
| "decimal_string NaN = ''NaN''"

definition sample_host :: host where
  "sample_host = \<lparr>ToString = decimal_string, Date_parse = (\<lambda>s. Invalid_Date)\<rparr>"

text \<open>The comparison \<^verbatim>\<open>a <= b\<close> on numbers: false as soon as one side is NaN.\<close>

definition num_le :: "number \<Rightarrow> number \<Rightarrow> bool" where
  "num_le a b = (num_lt a b \<or> (a = b \<and> a \<noteq> NaN))"

text \<open>A finite number that is not negative, or plus infinity: what a sum of absolute values is.\<close>

fun nonneg_num :: "number \<Rightarrow> bool" where
  "nonneg_num (Fin x) = (0 \<le> x)"
| "nonneg_num PosInf = True"
| "nonneg_num _ = False"

text \<open>The sum of \<open>|amount|\<close> over a list of records, added from the left as the code does.\<close>

definition abs_amount :: "ProcessedDonation \<Rightarrow> number" where
  "abs_amount d = Math_abs (amount d)"

definition total_abs :: "ProcessedDonation list \<Rightarrow> number" where
  "total_abs ds = foldl num_add (Fin 0) (map (\<lambda>d. Math_abs (amount d)) ds)"


text \<open>Rounding to the nearest integer, a tie going away from zero.\<close>

definition round_half_away :: "rat \<Rightarrow> int" where
  "round_half_away x = (if 0 \<le> x then \<lfloor>x + 1 / 2\<rfloor> else - \<lfloor>- x + 1 / 2\<rfloor>)"

text \<open>The key that the classifier builds for a donation with a valid date.\<close>

definition key_of :: "host \<Rightarrow> RawDonation \<Rightarrow> string" where
  "key_of h d = (case date d of Time t \<Rightarrow> donation_key h (iso_date t) d | Invalid_Date \<Rightarrow> [])"

text \<open>The position of the first occurrence of \<open>x\<close> in a list (its length when there is none).\<close>

fun first_index :: "'a list \<Rightarrow> 'a \<Rightarrow> nat" where
  "first_index [] x = 0"
| "first_index (y # ys) x = (if y = x then 0 else Suc (first_index ys x))"

subsection \<open>The steps of the amount parser, in the words of the specification\<close>






subsection \<open>A worked example\<close>

text \<open>
  A grid with a header and six data rows, the dates given as serial numbers (45296 is
  5 January 2024): the fifth row has no date, the sixth has 50 cents. The mapping gives
  the cents 1, 2 and 3 to three churches, and gives 50 cents to a church whose name is
  the text of the sentinel.
\<close>

definition example_mappings :: "ChurchMapping list" where
  "example_mappings =
     [(Fin 1, ''Alpha''), (Fin 2, ''Beta''), (Fin 3, ''Gamma''), (Fin 50, Nao_mapeado)]"

definition example_grid :: "cell list list" where
  "example_grid =
     [[Text ''Data'', Text ''Valor''],
      [Number (Fin 45296), Text ''10,02''],
      [Number (Fin 45296), Number (Fin (501 / 100))],
      [Number (Fin 45296), Number (Fin (501 / 100))],
      [Number (Fin 45297), Number (Fin (100003 / 100))],
      [Absent, Number (Fin (101 / 100))],
      [Number (Fin 45298), Number (Fin (- (7 / 2)))]]"

definition example_result :: Result where
  "example_result =
     \<lparr>donations =
        [\<lparr>date = Time 1704412800000, donorName = None, amount = Fin (501 / 50),
          description = None, cents = Fin 2, assignedChurch = ''Beta'',
          isDuplicate = False, isNegative = False\<rparr>,
         \<lparr>date = Time 1704412800000, donorName = None, amount = Fin (501 / 100),
          description = None, cents = Fin 1, assignedChurch = ''Alpha'',
          isDuplicate = False, isNegative = False\<rparr>,
         \<lparr>date = Time 1704412800000, donorName = None, amount = Fin (501 / 100),
          description = None, cents = Fin 1, assignedChurch = ''Alpha'',
          isDuplicate = True, isNegative = False\<rparr>,
         \<lparr>date = Time 1704499200000, donorName = None, amount = Fin (100003 / 100),
          description = None, cents = Fin 3, assignedChurch = ''Gamma'',
          isDuplicate = False, isNegative = False\<rparr>],
      summary =
        [\<lparr>churchName = ''Gamma'', sum_cents = Fin 3, sum_total = Fin (100003 / 100),
          sum_count = 1\<rparr>,
         \<lparr>churchName = ''Beta'', sum_cents = Fin 2, sum_total = Fin (501 / 50),
          sum_count = 1\<rparr>,
         \<lparr>churchName = ''Alpha'', sum_cents = Fin 1, sum_total = Fin (501 / 50),
          sum_count = 2\<rparr>],
      unmapped =
        [\<lparr>date = Time 1704585600000, donorName = None, amount = Fin (- (7 / 2)),
          description = None, cents = Fin 50, assignedChurch = Nao_mapeado,
          isDuplicate = False, isNegative = True\<rparr>],
      stats = \<lparr>totalProcessed = 5, duplicatesFound = 1, negativeValuesFound = 1,
        unmappedCount = 1\<rparr>\<rparr>"


section \<open>Auxiliary facts\<close>

subsection \<open>Sums of numbers\<close>

lemma abs_amount_eq: "(\<lambda>d. Math_abs (amount d)) = abs_amount"
  by (rule ext) (simp add: abs_amount_def)

lemma foldl_num_add: "foldl num_add a xs = a + sum_list xs"
  by (induction xs arbitrary: a) (simp_all add: plus_number_def[symmetric] ac_simps)

lemma total_abs_sum: "total_abs ds = sum_list (map abs_amount ds)"
  by (simp add: total_abs_def foldl_num_add zero_number_def[symmetric] abs_amount_eq)


lemma nonneg_abs: "\<not> isNaN a \<Longrightarrow> nonneg_num (Math_abs a)"
  by (cases a) simp_all

lemma nonneg_add: "nonneg_num a \<Longrightarrow> nonneg_num b \<Longrightarrow> nonneg_num (a + b)"
  by (cases a; cases b) (simp_all add: plus_number_def)

lemma nonneg_sum_list: "(\<And>x. x \<in> set xs \<Longrightarrow> nonneg_num x) \<Longrightarrow> nonneg_num (sum_list xs)"
  by (induction xs) (simp_all add: nonneg_add zero_number_def)

lemma cmp_positive:
  "nonneg_num a \<Longrightarrow> nonneg_num b \<Longrightarrow> num_lt (Fin 0) (num_sub b a) = num_lt a b"
  by (cases a; cases b) (simp_all add: num_sub_def)

lemma num_lt_trans: "num_lt a b \<Longrightarrow> num_lt b c \<Longrightarrow> num_lt a c"
  by (cases a; cases b; cases c) simp_all

lemma num_trichotomy:
  "nonneg_num a \<Longrightarrow> nonneg_num b \<Longrightarrow> \<not> num_lt a b \<Longrightarrow> num_lt b a \<or> a = b"
  by (cases a; cases b) auto

lemma nonneg_le: "nonneg_num a \<Longrightarrow> nonneg_num b \<Longrightarrow> num_lt a b \<or> a = b \<Longrightarrow> num_le a b"
  by (cases a; cases b) (auto simp: num_le_def)

subsection \<open>The map of the aggregator\<close>

lemma map_get_map_set: "map_get (map_set m k v) k' = (if k' = k then Some v else map_get m k')"
  by (induction m) auto

lemma keys_map_set:
  "map fst (map_set m k v) = (if k \<in> fst ` set m then map fst m else map fst m @ [k])"
  by (induction m) force+

lemma map_get_distinct: "distinct (map fst m) \<Longrightarrow> (k, v) \<in> set m \<Longrightarrow> map_get m k = Some v"
  by (induction m) (auto simp: rev_image_eqI)

lemma summary_entries_snoc:
  "summary_entries (ds @ [d]) = summary_step (summary_entries ds) d"
  by (simp add: summary_entries_def)

lemma keys_summary_step:
  "map fst (summary_step m d) =
     (if assignedChurch d = Nao_mapeado \<or> assignedChurch d \<in> fst ` set m then map fst m
      else map fst m @ [assignedChurch d])"
  by (simp add: summary_step_def keys_map_set split: option.splits prod.splits)

lemma distinct_summary_entries: "distinct (map fst (summary_entries ds))"
proof (induction ds rule: rev_induct)
  case Nil
  show ?case by (simp add: summary_entries_def)
next
  case (snoc d ds)
  then show ?case by (simp add: summary_entries_snoc keys_summary_step)
qed

text \<open>
  The total that the map holds for a name, after a list of donations: the sum over the
  donations of that name; the sentinel and the names that do not occur have no entry.
\<close>

lemma entries_total:
  "map_option fst (map_get (summary_entries ds) k) =
     (if k \<noteq> Nao_mapeado \<and> k \<in> assignedChurch ` set ds
      then Some (sum_list (map abs_amount (filter (\<lambda>d. assignedChurch d = k) ds)))
      else None)"
proof (induction ds arbitrary: k rule: rev_induct)
  case Nil
  show ?case by (simp add: summary_entries_def)
next
  case (snoc d ds)
  show ?case
  proof (cases "assignedChurch d = Nao_mapeado")
    case True
    then show ?thesis
      using snoc[of k] by (auto simp: summary_entries_snoc summary_step_def)
  next
    case False
    show ?thesis
    proof (cases "k = assignedChurch d")
      case k: True
      show ?thesis
      proof (cases "map_get (summary_entries ds) k")
        case None
        with snoc[of k] False k have "k \<notin> assignedChurch ` set ds"
          by (simp split: if_splits)
        then have "filter (\<lambda>d. assignedChurch d = k) ds = []"
          by (auto simp: filter_empty_conv)
        with None False k show ?thesis
          by (simp add: summary_entries_snoc summary_step_def map_get_map_set abs_amount_def
              plus_number_def[symmetric] zero_number_def[symmetric])
      next
        case (Some e)
        obtain t n c where e: "e = (t, n, c)" by (cases e)
        with snoc[of k] Some
        have "t = sum_list (map abs_amount (filter (\<lambda>d. assignedChurch d = k) ds))"
          by (auto split: if_splits)
        with Some e False k show ?thesis
          by (simp add: summary_entries_snoc summary_step_def map_get_map_set abs_amount_def
              plus_number_def[symmetric])
      qed
    next
      case nk: False
      with False snoc[of k] show ?thesis
        by (auto simp: summary_entries_snoc summary_step_def map_get_map_set Let_def
            split: option.splits prod.splits)
    qed
  qed
qed





text \<open>The names of the map are the names of the donations, each at its first occurrence.\<close>

lemma keys_summary_entries:
  "map fst (summary_entries ds) =
     rev (remdups (rev (filter (\<lambda>n. n \<noteq> Nao_mapeado) (map assignedChurch ds))))"
proof (induction ds rule: rev_induct)
  case Nil
  show ?case by (simp add: summary_entries_def)
next
  case (snoc d ds)
  have "fst ` set (summary_entries ds) = set (map fst (summary_entries ds))" by simp
  also have "\<dots> = {n \<in> assignedChurch ` set ds. n \<noteq> Nao_mapeado}"
    unfolding snoc by auto
  finally have k: "fst ` set (summary_entries ds) = {n \<in> assignedChurch ` set ds. n \<noteq> Nao_mapeado}" .
  show ?case
    by (auto simp: summary_entries_snoc keys_summary_step k snoc)
qed

subsection \<open>The sort\<close>

lemma set_sort_insert: "set (sort_insert cmp x ys) = insert x (set ys)"
  by (induction ys) auto

lemma set_array_sort: "set (array_sort cmp xs) = set xs"
  by (induction xs) (simp_all add: set_sort_insert)



text \<open>
  Inserting \<open>x\<close> into a list that is sorted by key, descending, with ties in the order
  \<open>R\<close>, keeps it so when \<open>x\<close> comes before every element of the list in the order \<open>R\<close>.
\<close>

lemma sort_insert_sorted:
  fixes f :: "'a \<Rightarrow> number" and R :: "'a \<Rightarrow> 'a \<Rightarrow> bool"
  defines "L \<equiv> (\<lambda>a b. num_lt (f b) (f a) \<or> (f a = f b \<and> R a b))"
  assumes fx: "nonneg_num (f x)" and fys: "\<And>y. y \<in> set ys \<Longrightarrow> nonneg_num (f y)"
    and srt: "sorted_wrt L ys" and Rx: "\<And>y. y \<in> set ys \<Longrightarrow> R x y"
  shows "sorted_wrt L (sort_insert (\<lambda>a b. num_sub (f b) (f a)) x ys)"
  using fys srt Rx
proof (induction ys)
  case Nil
  show ?case by simp
next
  case (Cons y ys)
  have fy: "nonneg_num (f y)" using Cons.prems(1) by simp
  show ?case
  proof (cases "num_lt (f x) (f y)")
    case True
    have ih: "sorted_wrt L (sort_insert (\<lambda>a b. num_sub (f b) (f a)) x ys)"
      using Cons by simp
    have "L y x" using True by (simp add: L_def)
    with True ih Cons.prems(2) show ?thesis
      by (simp add: cmp_positive[OF fx fy] set_sort_insert)
  next
    case False
    from num_trichotomy[OF fx fy False] have yx: "num_lt (f y) (f x) \<or> f x = f y" .
    have Lxy: "L x y" using yx Cons.prems(3) by (auto simp: L_def)
    have "L x z" if z: "z \<in> set ys" for z
    proof -
      from Cons.prems(2) z have "L y z" by simp
      then have "num_lt (f z) (f y) \<or> f y = f z" by (auto simp: L_def)
      with yx have "num_lt (f z) (f x) \<or> f x = f z"
        by (auto intro: num_lt_trans)
      with Cons.prems(3) z show ?thesis by (auto simp: L_def)
    qed
    with False Lxy Cons.prems(2) show ?thesis
      by (simp add: cmp_positive[OF fx fy])
  qed
qed

lemma array_sort_sorted:
  fixes f :: "'a \<Rightarrow> number"
  assumes "\<And>y. y \<in> set xs \<Longrightarrow> nonneg_num (f y)" and "sorted_wrt R xs"
  shows "sorted_wrt (\<lambda>a b. num_lt (f b) (f a) \<or> (f a = f b \<and> R a b))
           (array_sort (\<lambda>a b. num_sub (f b) (f a)) xs)"
  using assms
proof (induction xs)
  case Nil
  show ?case by simp
next
  case (Cons x xs)
  show ?case
    unfolding array_sort.simps
  proof (rule sort_insert_sorted)
    show "nonneg_num (f x)" using Cons.prems(1) by simp
    show "nonneg_num (f y)" if "y \<in> set (array_sort (\<lambda>a b. num_sub (f b) (f a)) xs)" for y
      using that Cons.prems(1) by (simp add: set_array_sort)
    show "sorted_wrt (\<lambda>a b. num_lt (f b) (f a) \<or> f a = f b \<and> R a b)
            (array_sort (\<lambda>a b. num_sub (f b) (f a)) xs)"
      using Cons by simp
    show "R x y" if "y \<in> set (array_sort (\<lambda>a b. num_sub (f b) (f a)) xs)" for y
      using that Cons.prems(2) by (simp add: set_array_sort)
  qed
qed

subsection \<open>First occurrences\<close>

lemma first_index_less: "first_index xs a < length xs \<longleftrightarrow> a \<in> set xs"
  by (induction xs) auto

lemma first_index_append:
  "first_index (xs @ ys) a = (if a \<in> set xs then first_index xs a else length xs + first_index ys a)"
  by (induction xs) auto

lemma firsts_sorted:
  "sorted_wrt (\<lambda>a b. first_index xs a < first_index xs b) (rev (remdups (rev xs)))"
proof (induction xs rule: rev_induct)
  case Nil
  show ?case by simp
next
  case (snoc x xs)
  have old: "sorted_wrt (\<lambda>a b. first_index (xs @ [x]) a < first_index (xs @ [x]) b)
      (rev (remdups (rev xs)))"
    by (rule sorted_wrt_mono_rel[OF _ snoc]) (simp add: first_index_append)
  show ?case
  proof (cases "x \<in> set xs")
    case True
    with old show ?thesis by simp
  next
    case False
    with old show ?thesis
      by (auto simp: sorted_wrt_append first_index_append first_index_less)
  qed
qed

subsection \<open>The summary\<close>

lemma sum_total_to_summary: "sum_total (to_summary e) = fst (snd e)"
  by (cases e) (auto simp: to_summary_def)

lemma churchName_to_summary: "churchName (to_summary e) = fst e"
  by (cases e) (auto simp: to_summary_def)


lemma generateSummary_row_total:
  assumes "s \<in> set (generateSummary ds)"
  shows "churchName s \<noteq> Nao_mapeado \<and> churchName s \<in> assignedChurch ` set ds
    \<and> sum_total s = total_abs (filter (\<lambda>d. assignedChurch d = churchName s) ds)"
proof -
  from assms obtain e where e: "e \<in> set (summary_entries ds)" and s: "s = to_summary e"
    by (auto simp: generateSummary_def set_array_sort)
  have "map_get (summary_entries ds) (fst e) = Some (snd e)"
    by (rule map_get_distinct[OF distinct_summary_entries]) (use e in simp)
  then have "map_option fst (map_get (summary_entries ds) (fst e)) = Some (fst (snd e))"
    by simp
  then show ?thesis
    unfolding entries_total s
    by (simp add: sum_total_to_summary churchName_to_summary total_abs_sum
        split: if_splits)
qed

lemma generateSummary_nonneg:
  assumes "\<And>d. d \<in> set ds \<Longrightarrow> \<not> isNaN (amount d)" and "s \<in> set (generateSummary ds)"
  shows "nonneg_num (sum_total s)"
proof -
  from generateSummary_row_total[OF assms(2)]
  have "sum_total s = sum_list (map abs_amount (filter (\<lambda>d. assignedChurch d = churchName s) ds))"
    by (simp add: total_abs_sum)
  moreover have "nonneg_num (sum_list (map abs_amount (filter (\<lambda>d. assignedChurch d = churchName s) ds)))"
    by (rule nonneg_sum_list) (auto simp: abs_amount_def nonneg_abs assms(1))
  ultimately show ?thesis by simp
qed

lemma generateSummary_sorted:
  assumes nan: "\<And>d. d \<in> set ds \<Longrightarrow> \<not> isNaN (amount d)"
    and mapped: "\<And>d. d \<in> set ds \<Longrightarrow> assignedChurch d \<noteq> Nao_mapeado"
  shows "sorted_wrt (\<lambda>a b. num_lt (sum_total b) (sum_total a)
            \<or> (sum_total a = sum_total b
               \<and> first_index (map assignedChurch ds) (churchName a)
                 < first_index (map assignedChurch ds) (churchName b)))
          (generateSummary ds)"
proof -
  let ?names = "map assignedChurch ds"
  let ?R = "\<lambda>a b. first_index ?names (churchName a) < first_index ?names (churchName b)"
  have names: "filter (\<lambda>n. n \<noteq> Nao_mapeado) ?names = ?names"
    using mapped by (simp add: filter_id_conv)
  have "sorted_wrt (\<lambda>a b. first_index ?names a < first_index ?names b)
          (map fst (summary_entries ds))"
    unfolding keys_summary_entries names by (rule firsts_sorted)
  then have R: "sorted_wrt ?R (map to_summary (summary_entries ds))"
    by (simp add: sorted_wrt_map churchName_to_summary)
  have nn: "nonneg_num (sum_total s)" if "s \<in> set (map to_summary (summary_entries ds))" for s
  proof (rule generateSummary_nonneg[OF nan])
    show "s \<in> set (generateSummary ds)"
      using that by (simp add: generateSummary_def set_array_sort)
  qed
  show ?thesis
    unfolding generateSummary_def by_total_descending_def
    by (rule array_sort_sorted[OF nn R])
qed

subsection \<open>The parser and the classifier\<close>

lemma parseRows_not_NaN:
  "d \<in> set (parseRows h di ai doi dei rows) \<Longrightarrow> \<not> isNaN (amount d)"
  by (induction rows) (auto simp: Let_def split: if_splits option.splits)

lemma parseExcelData_rows:
  assumes "parseExcelData h (header # rows) = Inr raw"
  shows "\<exists>di ai doi dei. raw = parseRows h di ai doi dei rows"
proof -
  let ?headers = "map (\<lambda>c. toLowerCase (String_of h c)) header"
  show ?thesis
  proof (cases "findColumnIndex ?headers [''data'', ''date'', ''dt'']")
    case None
    with assms show ?thesis
      by (simp add: parseExcelData_def Let_def del: findColumnIndex.simps)
  next
    case di: (Some di)
    show ?thesis
    proof (cases "findColumnIndex ?headers [''valor'', ''amount'', ''value'', ''vlr'']")
      case None
      with assms di show ?thesis
        by (simp add: parseExcelData_def Let_def del: findColumnIndex.simps)
    next
      case (Some ai)
      with assms di have "raw = parseRows h di ai
          (findColumnIndex ?headers [''doador'', ''donor'', ''nome'', ''name''])
          (findColumnIndex ?headers [''descricao'', ''description'', ''desc'', ''observacao'']) rows"
        by (simp add: parseExcelData_def Let_def del: findColumnIndex.simps)
      then show ?thesis by blast
    qed
  qed
qed

lemma parseExcelData_not_NaN:
  assumes e: "parseExcelData h data = Inr raw" and d: "d \<in> set raw"
  shows "\<not> isNaN (amount d)"
proof (cases data)
  case Nil
  with e d show ?thesis by (simp add: parseExcelData_def)
next
  case (Cons header rows)
  with e parseExcelData_rows obtain di ai doi dei where "raw = parseRows h di ai doi dei rows"
    by blast
  with d parseRows_not_NaN show ?thesis by blast
qed

lemma processLoop_amounts:
  "processLoop h m seen raws = Inr ps \<Longrightarrow> map amount ps = map amount raws"
proof (induction raws arbitrary: seen ps)
  case Nil
  then show ?case by simp
next
  case (Cons d raws)
  then show ?case
    by (auto simp: Let_def split: sum.splits)
qed





text \<open>
  On a finite amount the cents are \<open>round(|amount| * 100) mod 100\<close>, between 0 and 99.
\<close>

lemma cents_of_finite:
  "cents_of (Fin a) = Fin (of_int (round_half_away (\<bar>a\<bar> * 100) mod 100))
   \<and> 0 \<le> round_half_away (\<bar>a\<bar> * 100) mod 100
   \<and> round_half_away (\<bar>a\<bar> * 100) mod 100 \<le> 99"
proof -
  define k where "k = \<lfloor>\<bar>a\<bar> * 100 + 1 / 2\<rfloor>"
  have k0: "0 \<le> k" unfolding k_def by simp
  have r: "round_half_away (\<bar>a\<bar> * 100) = k"
    by (simp add: round_half_away_def k_def)
  have "trunc (of_int k / 100) = k div 100"
    using k0 by (simp add: trunc_def floor_divide_of_int_eq[of k 100, simplified])
  then have "(of_int k :: rat) - 100 * of_int (trunc (of_int k / 100)) = of_int (k mod 100)"
    by (simp add: minus_mult_div_eq_mod[symmetric] del: minus_mult_div_eq_mod)
  then have "cents_of (Fin a) = Fin (of_int (k mod 100))"
    by (simp add: cents_of_def k_def[symmetric])
  moreover have "0 \<le> k mod 100" "k mod 100 \<le> 99" by simp_all
  ultimately show ?thesis by (simp add: r)
qed

text \<open>
  A record is flagged as a duplicate exactly when its key is the key of an earlier record
  of the run.
\<close>

lemma processLoop_isDuplicate:
  "processLoop h m seen raws = Inr ps \<Longrightarrow> i < length raws \<Longrightarrow>
     length ps = length raws \<and>
     isDuplicate (ps ! i) = (key_of h (raws ! i) \<in> seen \<union> key_of h ` set (take i raws))"
proof (induction raws arbitrary: seen ps i)
  case Nil
  then show ?case by simp
next
  case (Cons d raws)
  from Cons.prems(1) obtain t where t: "date d = Time t"
    by (cases "date d") auto
  from Cons.prems(1) t obtain ps' where
    ps': "processLoop h m (insert (key_of h d) seen) raws = Inr ps'"
    and ps: "ps = \<lparr>date = date d, donorName = donorName d, amount = amount d,
        description = description d, cents = cents_of (amount d),
        assignedChurch = assign_church m (cents_of (amount d)),
        isDuplicate = (key_of h d \<in> seen), isNegative = num_lt (amount d) (Fin 0)\<rparr> # ps'"
    by (auto simp: Let_def key_of_def split: sum.splits)
  have len: "length ps' = length raws"
  proof (cases raws)
    case Nil
    with ps' show ?thesis by simp
  next
    case (Cons a list)
    then have "0 < length raws" by simp
    from Cons.IH[OF ps' this] show ?thesis by simp
  qed
  show ?case
  proof (cases i)
    case 0
    with ps len show ?thesis by simp
  next
    case (Suc j)
    with Cons.prems(2) have j: "j < length raws" by simp
    from Cons.IH[OF ps' j] Suc ps len show ?thesis by auto
  qed
qed

text \<open>
  The two ways in which a run fails: the header lacks a required column, or a parsed
  record carries an invalid date.
\<close>

lemma processLoop_error:
  "processLoop h m seen raws = Inl e \<Longrightarrow> e = RangeError \<and> Invalid_Date \<in> date ` set raws"
proof (induction raws arbitrary: seen)
  case Nil
  then show ?case by simp
next
  case (Cons d raws)
  show ?case
  proof (cases "date d")
    case Invalid_Date
    with Cons.prems show ?thesis by simp
  next
    case (Time t)
    with Cons.prems obtain seen' where "processLoop h m seen' raws = Inl e"
      by (auto simp: Let_def split: sum.splits)
    from Cons.IH[OF this] show ?thesis by simp
  qed
qed

lemma parseExcelData_error:
  assumes "parseExcelData h data = Inl e"
  shows "e = Colunas_obrigatorias_nao_encontradas \<and>
    (\<exists>header rows. data = header # rows \<and>
       (findColumnIndex (map (\<lambda>c. toLowerCase (String_of h c)) header) [''data'', ''date'', ''dt''] = None
        \<or> findColumnIndex (map (\<lambda>c. toLowerCase (String_of h c)) header)
             [''valor'', ''amount'', ''value'', ''vlr''] = None))"
proof (cases data)
  case Nil
  with assms show ?thesis by (simp add: parseExcelData_def)
next
  case (Cons header rows)
  let ?headers = "map (\<lambda>c. toLowerCase (String_of h c)) header"
  show ?thesis
  proof (cases "findColumnIndex ?headers [''data'', ''date'', ''dt'']")
    case None
    with assms Cons show ?thesis
      by (simp add: parseExcelData_def Let_def del: findColumnIndex.simps)
  next
    case di: (Some di)
    show ?thesis
    proof (cases "findColumnIndex ?headers [''valor'', ''amount'', ''value'', ''vlr'']")
      case None
      with assms Cons di show ?thesis
        by (simp add: parseExcelData_def Let_def del: findColumnIndex.simps)
    next
      case (Some ai)
      with assms Cons di show ?thesis
        by (simp add: parseExcelData_def Let_def del: findColumnIndex.simps)
    qed
  qed
qed

lemma processExcelFile_error:
  assumes "processExcelFile h mappings data = Inl e"
  shows "parseExcelData h data = Inl Colunas_obrigatorias_nao_encontradas
           \<and> e = Colunas_obrigatorias_nao_encontradas
    \<or> (\<exists>raw. parseExcelData h data = Inr raw \<and> Invalid_Date \<in> date ` set raw \<and> e = RangeError)"
proof (cases "parseExcelData h data")
  case (Inl e')
  with assms parseExcelData_error[OF Inl] show ?thesis
    by (simp add: processExcelFile_def)
next
  case (Inr raw)
  with assms have "processLoop h (new_Map mappings) {} raw = Inl e"
    by (auto simp: processExcelFile_def processDonations_def separateByMapping_def split: sum.splits)
  from processLoop_error[OF this] Inr show ?thesis by simp
qed

text \<open>What a successful run is made of.\<close>

lemma processExcelFile_Inr:
  assumes "processExcelFile h mappings data = Inr r"
  obtains rawDonations processed where
    "parseExcelData h data = Inr rawDonations"
    "processDonations h (new_Map mappings) rawDonations = Inr processed"
    "donations r = mappedDonations processed"
    "summary r = generateSummary (mappedDonations processed)"
    "unmapped r = unmappedDonations processed"
    "stats r = generateStats processed (unmappedDonations processed)"
  using assms
  by (auto simp: processExcelFile_def separateByMapping_def split: sum.splits)


lemma processed_not_NaN:
  assumes "processExcelFile h mappings data = Inr r" and "d \<in> set (donations r)"
  shows "\<not> isNaN (amount d)"
proof -
  from assms(1) obtain raw processed where
    raw: "parseExcelData h data = Inr raw"
    and pr: "processDonations h (new_Map mappings) raw = Inr processed"
    and d: "donations r = mappedDonations processed"
    by (rule processExcelFile_Inr)
  from pr have "map amount processed = map amount raw"
    by (simp add: processDonations_def processLoop_amounts)
  then have "amount ` set processed = amount ` set raw"
    by (metis set_map)
  moreover from assms(2) d have "amount d \<in> amount ` set processed"
    by (auto simp: mappedDonations_def)
  ultimately obtain d' where "d' \<in> set raw" "amount d' = amount d" by auto
  with parseExcelData_not_NaN[OF raw] show ?thesis by metis
qed

text \<open>The run of the worked example.\<close>

lemma example_run:
  "processExcelFile sample_host example_mappings example_grid = Inr example_result"
  by code_simp

subsection \<open>The amount parser\<close>













section \<open>Verified properties\<close>

subsection \<open>Dates written day first\<close>

text \<open>
  C1 says that a text cell matching \<^verbatim>\<open>DD/MM/YYYY\<close>, \<^verbatim>\<open>DD-MM-YYYY\<close> or \<^verbatim>\<open>YYYY-MM-DD\<close> gives the
  calendar date made of its three captured numbers. The code decides the order of the
  fields by looking for \<^verbatim>\<open>(\d{4})\<close> in the source of the pattern, and all three sources
  contain it. So the day-first text \<^verbatim>\<open>05/01/2024\<close> is read year first, as
  \<^verbatim>\<open>new Date(5, 0, 2024)\<close>: year 1905, January, day 2024, which is 17 July 1910 and not
  5 January 2024, the date \<^verbatim>\<open>new Date(2024, 0, 5)\<close> of the branch that is never taken.
\<close>

theorem parseDate_day_first_read_year_first:
  "str_includes (pattern_source (patterns ! 0)) (''('' @ [backslash] @ ''d{4})'')
   \<and> match_toks (patterns ! 0) ''05/01/2024'' = Some [''05'', ''01'', ''2024'']
   \<and> parseDate h (Text ''05/01/2024'') = Some (Time (- 1876435200000))
   \<and> ymd_of_time (- 1876435200000) = (1910, 7, 17)
   \<and> new_Date_ymd 2024 (1 - 1) 5 = Time 1704412800000
   \<and> ymd_of_time 1704412800000 = (2024, 1, 5)"
  by code_simp

subsection \<open>The cents of an infinite amount\<close>

text \<open>
  C2 says that the cents of every classified record lie between 0 and 99 and are
  \<open>round(|amount| * 100) mod 100\<close>. The parser keeps every amount that is not NaN, and
  \<^verbatim>\<open>parseFloat\<close> reads the text \<^verbatim>\<open>Infinity\<close> as the infinite number; the record is
  classified with \<^verbatim>\<open>Math.round(Infinity) % 100\<close>, which is NaN. On finite amounts
  the claim holds in the model (lemma \<open>cents_of_finite\<close>).
\<close>

theorem infinite_amount_has_NaN_cents:
  "parseAmount h (Text ''Infinity'') = PosInf
   \<and> cents_of PosInf = NaN
   \<and> processExcelFile h [(Fin 1, ''Alpha'')]
        [[Text ''data'', Text ''valor''], [Text ''2024-01-05'', Text ''Infinity'']] =
      Inr \<lparr>donations = [], summary = [],
           unmapped = [\<lparr>date = Time 1704412800000, donorName = None, amount = PosInf,
             description = None, cents = NaN, assignedChurch = Nao_mapeado,
             isDuplicate = False, isNegative = False\<rparr>],
           stats = \<lparr>totalProcessed = 1, duplicatesFound = 0, negativeValuesFound = 0,
             unmappedCount = 1\<rparr>\<rparr>"
  by code_simp

subsection \<open>Two donations that differ and share a key\<close>

text \<open>
  C3 says that a record is flagged as a duplicate exactly when an earlier record has the
  same date, amount, donor and description, and that a difference in one of the four
  prevents the flag. The key joins the four texts with \<^verbatim>\<open>_\<close>, so donor \<^verbatim>\<open>a_b\<close> with
  description \<^verbatim>\<open>c\<close> and donor \<^verbatim>\<open>a\<close> with description \<^verbatim>\<open>b_c\<close> have one key. The second
  row below differs from the first in donor and in description and is flagged, whatever
  the rendering of numbers is. What the flag does follow is the key: a record is flagged
  exactly when an earlier record has the same key (lemma \<open>processLoop_isDuplicate\<close>).
\<close>

theorem underscore_rows_flagged_duplicate:
  "processExcelFile h [(Fin 1, ''Alpha'')]
     [[Text ''data'', Text ''valor'', Text ''nome'', Text ''descricao''],
      [Text ''2024-01-05'', Number (Fin (1001 / 100)), Text ''a_b'', Text ''c''],
      [Text ''2024-01-05'', Number (Fin (1001 / 100)), Text ''a'', Text ''b_c'']] =
   Inr \<lparr>donations =
          [\<lparr>date = Time 1704412800000, donorName = Some ''a_b'', amount = Fin (1001 / 100),
            description = Some ''c'', cents = Fin 1, assignedChurch = ''Alpha'',
            isDuplicate = False, isNegative = False\<rparr>,
           \<lparr>date = Time 1704412800000, donorName = Some ''a'', amount = Fin (1001 / 100),
            description = Some ''b_c'', cents = Fin 1, assignedChurch = ''Alpha'',
            isDuplicate = True, isNegative = False\<rparr>],
        summary = [\<lparr>churchName = ''Alpha'', sum_cents = Fin 1, sum_total = Fin (1001 / 50),
            sum_count = 2\<rparr>],
        unmapped = [],
        stats = \<lparr>totalProcessed = 2, duplicatesFound = 1, negativeValuesFound = 0,
            unmappedCount = 0\<rparr>\<rparr>"
  by code_simp

subsection \<open>A run aborted by a data row\<close>

text \<open>
  C4 says that a run fails only when the header has no date column or no amount column,
  and that a data row that cannot be read is skipped. A numeric date cell beyond the
  range of \<^verbatim>\<open>Date\<close> gives an invalid date object, which is truthy and passes the test of
  the row; \<^verbatim>\<open>toISOString\<close> then throws a \<^verbatim>\<open>RangeError\<close> in the classifier. Here both
  required columns are found, and the run is aborted by its one data row. A missing
  column and an invalid date are the two ways in which a run fails
  (lemma \<open>processExcelFile_error\<close>).
\<close>

theorem out_of_range_serial_aborts_run:
  "findColumnIndex [''data'', ''valor''] [''data'', ''date'', ''dt''] = Some 0
   \<and> findColumnIndex [''data'', ''valor''] [''valor'', ''amount'', ''value'', ''vlr''] = Some 1
   \<and> parseDate h (Number (Fin 1000000000)) = Some Invalid_Date
   \<and> processExcelFile h mappings
        [[Text ''data'', Text ''valor''], [Number (Fin 1000000000), Number (Fin 10)]] =
      Inl RangeError"
  by code_simp

subsection \<open>Serial numbers as dates\<close>




subsection \<open>The totals of the summary\<close>



subsection \<open>The order of the summary\<close>

text \<open>
  C7: in every run, the summary rows are in non-increasing order of their totals, and of
  two rows with equal totals the one whose church appears first among the mapped
  records comes first.
\<close>

theorem summary_sort_law:
  assumes "processExcelFile h mappings data = Inr r"
  shows "sorted_wrt (\<lambda>a b. num_le (sum_total b) (sum_total a)) (summary r)
       \<and> sorted_wrt (\<lambda>a b. sum_total a = sum_total b \<longrightarrow>
            first_index (map assignedChurch (donations r)) (churchName a)
              < first_index (map assignedChurch (donations r)) (churchName b)) (summary r)"
proof -
  let ?fi = "first_index (map assignedChurch (donations r))"
  from assms obtain processed where d: "donations r = mappedDonations processed"
    and s: "summary r = generateSummary (donations r)"
    by (rule processExcelFile_Inr) simp
  have nn: "\<not> isNaN (amount x)" if "x \<in> set (donations r)" for x
    using processed_not_NaN[OF assms that] .
  have mp: "assignedChurch x \<noteq> Nao_mapeado" if "x \<in> set (donations r)" for x
    using that by (simp add: d mappedDonations_def)
  have tot: "nonneg_num (sum_total x)" if "x \<in> set (summary r)" for x
    using generateSummary_nonneg[OF nn, of "donations r" x] that s by simp
  have lex: "sorted_wrt (\<lambda>a b. num_lt (sum_total b) (sum_total a)
            \<or> (sum_total a = sum_total b \<and> ?fi (churchName a) < ?fi (churchName b)))
          (summary r)"
    using generateSummary_sorted[OF nn mp] s by simp
  have le: "sorted_wrt (\<lambda>a b. num_le (sum_total b) (sum_total a)) (summary r)"
    by (rule sorted_wrt_mono_rel[OF _ lex]) (auto intro!: nonneg_le tot)
  have tie: "sorted_wrt (\<lambda>a b. sum_total a = sum_total b \<longrightarrow>
            ?fi (churchName a) < ?fi (churchName b)) (summary r)"
  proof (rule sorted_wrt_mono_rel[OF _ lex])
    fix a b
    assume l: "num_lt (sum_total b) (sum_total a)
            \<or> (sum_total a = sum_total b \<and> ?fi (churchName a) < ?fi (churchName b))"
    have "\<not> num_lt (sum_total a) (sum_total a)"
      by (cases "sum_total a") simp_all
    with l show "sum_total a = sum_total b \<longrightarrow> ?fi (churchName a) < ?fi (churchName b)"
      by auto
  qed
  from le tie show ?thesis by simp
qed

theorem summary_sort_law_witness:
  "processExcelFile sample_host example_mappings example_grid = Inr example_result
   \<and> map churchName (summary example_result) = [''Gamma'', ''Beta'', ''Alpha'']
   \<and> map assignedChurch (donations example_result) = [''Beta'', ''Alpha'', ''Alpha'', ''Gamma'']
   \<and> sorted_wrt (\<lambda>a b. num_le (sum_total b) (sum_total a)) (summary example_result)
   \<and> sorted_wrt (\<lambda>a b. sum_total a = sum_total b \<longrightarrow>
        first_index (map assignedChurch (donations example_result)) (churchName a)
          < first_index (map assignedChurch (donations example_result)) (churchName b))
        (summary example_result)"
proof -
  have n: "map churchName (summary example_result) = [''Gamma'', ''Beta'', ''Alpha'']"
    by (simp add: example_result_def)
  have m: "map assignedChurch (donations example_result) = [''Beta'', ''Alpha'', ''Alpha'', ''Gamma'']"
    by (simp add: example_result_def)
  from summary_sort_law[OF example_run] example_run n m show ?thesis by blast
qed

subsection \<open>The amount parser\<close>


subsection \<open>A church named like the sentinel\<close>



subsection \<open>The empty grid\<close>

text \<open>
  C10: on the grid with no row at all the run succeeds, with no mapped record, no summary
  row, no unmapped record and four counters at zero; the test for the required columns
  is made only when there is a first row, and a first row without cells fails it.
\<close>

theorem empty_grid_succeeds:
  "processExcelFile h mappings [] =
     Inr \<lparr>donations = [], summary = [], unmapped = [],
          stats = \<lparr>totalProcessed = 0, duplicatesFound = 0, negativeValuesFound = 0,
            unmappedCount = 0\<rparr>\<rparr>
   \<and> processExcelFile h mappings ([] # rows) = Inl Colunas_obrigatorias_nao_encontradas"
  by (simp add: processExcelFile_def parseExcelData_def processDonations_def
      separateByMapping_def mappedDonations_def unmappedDonations_def generateSummary_def
      summary_entries_def generateStats_def)

end
